theory Spec2Isabelle
  imports Main
begin

section \<open>Strings as Python uses them\<close>

text \<open>
  Strings are byte strings (\<open>char list\<close>); \<open>lower\<close> is Python's \<open>str.lower\<close>
  on ASCII letters, \<open>contains s kw\<close> is Python's \<open>kw in s\<close> and
  \<open>startswith\<close> is \<open>str.startswith\<close>.
\<close>

definition lower_char :: "char \<Rightarrow> char" where
  "lower_char c =
     (case map_of (zip ''ABCDEFGHIJKLMNOPQRSTUVWXYZ'' ''abcdefghijklmnopqrstuvwxyz'') c of
        None \<Rightarrow> c
      | Some l \<Rightarrow> l)"

definition lower :: "string \<Rightarrow> string" where
  "lower s = map lower_char s"

fun startswith :: "string \<Rightarrow> string \<Rightarrow> bool" where
  "startswith s [] = True"
| "startswith [] (p # ps) = False"
| "startswith (c # cs) (p # ps) = (c = p \<and> startswith cs ps)"

fun contains :: "string \<Rightarrow> string \<Rightarrow> bool" where
  "contains [] kw = (kw = [])"
| "contains (c # cs) kw = (startswith (c # cs) kw \<or> contains cs kw)"

text \<open>Decimal rendering of a non-negative integer (\<open>'%d' % n\<close>, \<open>str(n)\<close>).\<close>

fun show_nat :: "nat \<Rightarrow> string" where
  "show_nat n =
     (if n < 10 then [''0123456789'' ! n]
      else show_nat (n div 10) @ [''0123456789'' ! (n mod 10)])"

declare show_nat.simps [simp del]

definition newline :: string where
  "newline = [CHR 0x0A]"

section \<open>Data model\<close>

datatype job_state = Draft | Queued | Printing | Completed | Failed | Cancelled

datatype print_format = Pdf | Html | Escpos | Zpl

datatype printer_kind = Receipt | Label | Document | Other

text \<open>
  A timestamp is the clock reading in seconds; \<open>str_datetime\<close> stands for its printed
  form, which only the text of the retry note uses.
\<close>

type_synonym datetime = nat

definition str_datetime :: "datetime \<Rightarrow> string" where
  "str_datetime t = show_nat t"

text \<open>
  \<open>qz.printer\<close>. An unset many2one or Char field reads as \<open>False\<close> in the ORM and is
  \<open>None\<close> here. The constraint \<open>_check_priority\<close> keeps a stored priority
  non-negative, so the stored field is a natural number.
\<close>

record printer =
  printer_name :: string
  printer_type :: printer_kind
  location_id :: "nat option"
  department :: "string option"
  is_default :: bool
  printer_priority :: nat
  active :: bool
  supports_pdf :: bool
  supports_html :: bool
  supports_escpos :: bool
  supports_zpl :: bool

text \<open>
  \<open>qz.print.job\<close>. The constraints \<open>_check_priority\<close> and \<open>_check_retry_count\<close>
  keep the stored priority and retry count non-negative.
\<close>

record job =
  name :: string
  document_type :: string
  printer_id :: "nat option"
  user_id :: nat
  state :: job_state
  data :: "string option"
  data_format :: print_format
  template_id :: "nat option"
  template_data :: "string option"
  copies :: int
  priority :: nat
  error_message :: "string option"
  retry_count :: nat
  submitted_date :: "datetime option"
  completed_date :: "datetime option"
  parent_model :: "string option"
  parent_id :: "nat option"

text \<open>
  The \<open>ir.config_parameter\<close> entries \<open>qz_tray.retry_enabled\<close>,
  \<open>qz_tray.retry_count\<close> and \<open>qz_tray.retry_delay\<close>, already parsed.
\<close>

record config =
  retry_enabled :: bool
  max_retries :: int
  retry_delay :: int

text \<open>
  The \<open>ir.sequence\<close> record with code \<open>qz.print.job\<close>. The data file that would
  declare it is not among the sources, so how it renders its running number (prefix,
  padding) is a parameter: \<open>render\<close>.
\<close>

record ir_sequence =
  render :: "nat \<Rightarrow> string"
  number_next :: nat

text \<open>
  The database: a record's id is its position in its table (the engine never deletes a
  job). \<open>sequence\<close> is \<open>None\<close> when no sequence with code \<open>qz.print.job\<close>
  exists. \<open>notified\<close> lists the jobs handed to \<open>_notify_admin_failure\<close>, latest
  first.
\<close>

record db =
  printers :: "printer list"
  jobs :: "job list"
  config :: config
  sequence :: "ir_sequence option"
  notified :: "nat list"

datatype error =
  ValidationError string
| MissingError
| TypeError
| IndexError
| IntegrityError

datatype 'a outcome = Returned 'a | Raised error

definition row :: "'a list \<Rightarrow> nat \<Rightarrow> 'a option" where
  "row t i = (if i < length t then Some (t ! i) else None)"

definition write_job :: "nat \<Rightarrow> (job \<Rightarrow> job) \<Rightarrow> db \<Rightarrow> db" where
  "write_job jid f d =
     (if jid < length (jobs d) then d\<lparr>jobs := (jobs d)[jid := f (jobs d ! jid)]\<rparr> else d)"

text \<open>\<open>self.printer_id\<close> as a record: empty when unset.\<close>

definition printer_of :: "db \<Rightarrow> job \<Rightarrow> printer option" where
  "printer_of d j = (case printer_id j of None \<Rightarrow> None | Some pid \<Rightarrow> row (printers d) pid)"

text \<open>\<open>self.printer_id.active\<close> and \<open>'%s' % self.printer_id.name\<close>; both read
  \<open>False\<close> on an empty record.\<close>

definition printer_active :: "printer option \<Rightarrow> bool" where
  "printer_active p = (case p of None \<Rightarrow> False | Some q \<Rightarrow> active q)"

definition printer_label :: "printer option \<Rightarrow> string" where
  "printer_label p = (case p of None \<Rightarrow> ''False'' | Some q \<Rightarrow> printer_name q)"

definition format_name :: "print_format \<Rightarrow> string" where
  "format_name f = (case f of Pdf \<Rightarrow> ''pdf'' | Html \<Rightarrow> ''html'' | Escpos \<Rightarrow> ''escpos'' | Zpl \<Rightarrow> ''zpl'')"

text \<open>Python truthiness of a Binary or Char value.\<close>

definition truthy :: "string option \<Rightarrow> bool" where
  "truthy v = (case v of None \<Rightarrow> False | Some s \<Rightarrow> s \<noteq> [])"

section \<open>The job state machine (\<open>qz_print_job.py\<close>)\<close>

subsection \<open>\<open>submit_job\<close>\<close>

definition submit_job :: "datetime \<Rightarrow> nat \<Rightarrow> db \<Rightarrow> nat outcome \<times> db" where
  "submit_job now jid d =
     (case row (jobs d) jid of
        None \<Rightarrow> (Raised MissingError, d)
      | Some j \<Rightarrow>
          if \<not> truthy (data j) \<and> template_id j = None then
            (Raised (ValidationError ''Print job must have either data or a template''), d)
          else if printer_id j = None then
            (Raised (ValidationError ''Print job must have a printer assigned''), d)
          else if \<not> printer_active (printer_of d j) then
            (Returned jid,
             write_job jid (\<lambda>r. r\<lparr>submitted_date := Some now, state := Queued,
                error_message := Some (''Printer '' @ printer_label (printer_of d j) @
                  '' is offline. Job queued for later processing.'')\<rparr>) d)
          else
            (Returned jid, write_job jid (\<lambda>r. r\<lparr>submitted_date := Some now, state := Queued\<rparr>) d))"

subsection \<open>\<open>_is_transient_error\<close>\<close>

definition transient_keywords :: "string list" where
  "transient_keywords =
     [''timeout'', ''connection'', ''network'', ''offline'', ''unavailable'', ''busy'']"

definition is_transient_error :: "string \<Rightarrow> bool" where
  "is_transient_error message =
     list_ex (\<lambda>keyword. contains (lower message) keyword) transient_keywords"

subsection \<open>\<open>process_job\<close>\<close>

definition format_supported :: "print_format \<Rightarrow> printer option \<Rightarrow> bool" where
  "format_supported f p =
     (case p of
        None \<Rightarrow> False
      | Some q \<Rightarrow>
          if f = Pdf \<and> supports_pdf q then True
          else if f = Html \<and> supports_html q then True
          else if f = Escpos \<and> supports_escpos q then True
          else if f = Zpl \<and> supports_zpl q then True
          else False)"

text \<open>
  The \<open>except Exception\<close> branch of \<open>process_job\<close>: the exception's text is recorded
  on the job and the call returns \<open>False\<close>.
\<close>

definition process_failed :: "datetime \<Rightarrow> nat \<Rightarrow> string \<Rightarrow> db \<Rightarrow> bool outcome \<times> db" where
  "process_failed now jid error_msg d =
     (if is_transient_error error_msg then
        (Returned False,
         write_job jid (\<lambda>r. r\<lparr>state := Failed, error_message := Some error_msg\<rparr>) d)
      else
        (Returned False,
         write_job jid (\<lambda>r. r\<lparr>state := Failed, error_message := Some error_msg,
            completed_date := Some now\<rparr>) d))"

definition process_job :: "datetime \<Rightarrow> nat \<Rightarrow> db \<Rightarrow> bool outcome \<times> db" where
  "process_job now jid d =
     (case row (jobs d) jid of
        None \<Rightarrow> (Raised MissingError, d)
      | Some j \<Rightarrow>
          if state j \<noteq> Queued \<and> state j \<noteq> Failed then (Returned False, d)
          else
            let d1 = write_job jid (\<lambda>r. r\<lparr>state := Printing\<rparr>) d;
                p = printer_of d1 j
            in
              if \<not> printer_active p then
                process_failed now jid (''Printer '' @ printer_label p @ '' is not active'') d1
              else if \<not> format_supported (data_format j) p then
                process_failed now jid
                  (''Printer '' @ printer_label p @ '' does not support format '' @
                   format_name (data_format j)) d1
              else (Returned True, d1))"

subsection \<open>\<open>retry_job\<close> and \<open>_notify_admin_failure\<close>\<close>

text \<open>
  The notification sink. Mail delivery (groups, templates, the
  \<open>email_notifications_enabled\<close> switch) is outside the engine; the model records
  that the sink was invoked for the job.
\<close>

definition notify_admin_failure :: "nat \<Rightarrow> db \<Rightarrow> db" where
  "notify_admin_failure jid d = d\<lparr>notified := jid # notified d\<rparr>"

text \<open>The delay \<open>retry_job\<close> computes and never uses.\<close>

definition backoff_delay :: "config \<Rightarrow> nat \<Rightarrow> int" where
  "backoff_delay c new_retry_count = retry_delay c * 2 ^ (new_retry_count - 1)"

definition retry_job :: "datetime \<Rightarrow> nat \<Rightarrow> db \<Rightarrow> bool outcome \<times> db" where
  "retry_job now jid d =
     (case row (jobs d) jid of
        None \<Rightarrow> (Raised MissingError, d)
      | Some j \<Rightarrow>
          if state j \<noteq> Failed then (Returned False, d)
          else if \<not> retry_enabled (config d) then (Returned False, d)
          else if int (retry_count j) \<ge> max_retries (config d) then
            (case error_message j of
               None \<Rightarrow> (Raised TypeError, d)
             | Some m \<Rightarrow>
                 (Returned False,
                  notify_admin_failure jid
                    (write_job jid (\<lambda>r. r\<lparr>completed_date := Some now,
                       error_message := Some (m @ newline @ ''Maximum retry count exceeded'')\<rparr>) d)))
          else if \<not> is_transient_error (case error_message j of None \<Rightarrow> [] | Some m \<Rightarrow> m) then
            (Returned False, write_job jid (\<lambda>r. r\<lparr>completed_date := Some now\<rparr>) d)
          else
            let new_retry_count = retry_count j + 1 in
              (case error_message j of
                 None \<Rightarrow> (Raised TypeError, d)
               | Some m \<Rightarrow>
                   process_job now jid
                     (write_job jid (\<lambda>r. r\<lparr>state := Queued, retry_count := new_retry_count,
                        error_message := Some (m @ newline @ ''Retry attempt '' @
                          show_nat new_retry_count @ '' at '' @ str_datetime now)\<rparr>) d)))"

subsection \<open>\<open>cancel_job\<close>, \<open>mark_completed\<close>, \<open>mark_failed\<close>\<close>

definition cancel_job :: "datetime \<Rightarrow> nat \<Rightarrow> db \<Rightarrow> bool outcome \<times> db" where
  "cancel_job now jid d =
     (case row (jobs d) jid of
        None \<Rightarrow> (Raised MissingError, d)
      | Some j \<Rightarrow>
          if state j = Completed \<or> state j = Cancelled then (Returned False, d)
          else
            (Returned True,
             write_job jid (\<lambda>r. r\<lparr>state := Cancelled, completed_date := Some now\<rparr>) d))"

definition mark_completed :: "datetime \<Rightarrow> nat \<Rightarrow> db \<Rightarrow> bool outcome \<times> db" where
  "mark_completed now jid d =
     (case row (jobs d) jid of
        None \<Rightarrow> (Raised MissingError, d)
      | Some j \<Rightarrow>
          (Returned True,
           write_job jid (\<lambda>r. r\<lparr>state := Completed, completed_date := Some now,
              error_message := None\<rparr>) d))"

definition mark_failed :: "datetime \<Rightarrow> nat \<Rightarrow> string \<Rightarrow> db \<Rightarrow> bool outcome \<times> db" where
  "mark_failed now jid msg d =
     (case row (jobs d) jid of
        None \<Rightarrow> (Raised MissingError, d)
      | Some j \<Rightarrow>
          let d1 = write_job jid (\<lambda>r. r\<lparr>state := Failed, error_message := Some msg\<rparr>) d in
            if is_transient_error msg then
              (case retry_job now jid d1 of
                 (Raised e, d2) \<Rightarrow> (Raised e, d2)
               | (Returned b, d2) \<Rightarrow> (Returned True, d2))
            else
              (Returned True,
               notify_admin_failure jid (write_job jid (\<lambda>r. r\<lparr>completed_date := Some now\<rparr>) d1)))"

subsection \<open>Failing and retrying, again and again\<close>

text \<open>
  One round of a job that keeps failing: the job is written back to failed with the
  reported message and \<open>retry_job\<close> is called. This is what \<open>mark_failed\<close> does
  for a transient message, and what the repository's retry tests do
  (\<open>job.write({'state': 'failed', 'error_message': ...}); job.retry_job()\<close>).
  \<open>retry_repeatedly\<close> runs one round per reported failure, each at its own time.
\<close>

definition fail_then_retry :: "datetime \<Rightarrow> nat \<Rightarrow> string \<Rightarrow> db \<Rightarrow> db" where
  "fail_then_retry now jid msg d =
     snd (retry_job now jid (write_job jid (\<lambda>r. r\<lparr>state := Failed, error_message := Some msg\<rparr>) d))"


section \<open>Printer selection (\<open>qz_printer.py\<close>)\<close>

text \<open>
  A search returns the matching records in the model's \<open>_order\<close>,
  \<open>'priority desc, name'\<close>; names are compared bytewise. A record is paired with
  its id.
\<close>

fun str_le :: "string \<Rightarrow> string \<Rightarrow> bool" where
  "str_le [] t = True"
| "str_le (c # cs) [] = False"
| "str_le (c # cs) (e # es) = (of_char c < (of_char e :: nat) \<or> (c = e \<and> str_le cs es))"

definition printer_before :: "printer \<Rightarrow> printer \<Rightarrow> bool" where
  "printer_before p q =
     (printer_priority q < printer_priority p \<or>
      (printer_priority p = printer_priority q \<and> str_le (printer_name p) (printer_name q)))"

fun insert_ordered :: "nat \<times> printer \<Rightarrow> (nat \<times> printer) list \<Rightarrow> (nat \<times> printer) list" where
  "insert_ordered x [] = [x]"
| "insert_ordered x (y # ys) =
     (if printer_before (snd x) (snd y) then x # y # ys else y # insert_ordered x ys)"

definition in_order :: "(nat \<times> printer) list \<Rightarrow> (nat \<times> printer) list" where
  "in_order rs = foldr insert_ordered rs []"

definition search_printers :: "(printer \<Rightarrow> bool) \<Rightarrow> db \<Rightarrow> (nat \<times> printer) list" where
  "search_printers domain d = in_order (filter (\<lambda>r. domain (snd r)) (enumerate 0 (printers d)))"

text \<open>Python truthiness of an id argument (\<open>if location_id:\<close>).\<close>

definition given_id :: "nat option \<Rightarrow> bool" where
  "given_id i = (case i of None \<Rightarrow> False | Some n \<Rightarrow> n \<noteq> 0)"

text \<open>The score computed in the loop of \<open>_select_best_printer\<close>.\<close>

definition printer_score :: "nat option \<Rightarrow> string option \<Rightarrow> printer \<Rightarrow> int" where
  "printer_score loc dep p =
     (if given_id loc \<and> location_id p = loc then 1000
      else if location_id p = None then 100 else 0) +
     (if truthy dep \<and> department p = dep then 500
      else if \<not> truthy (department p) then 50 else 0) +
     (if is_default p then 10000 else 0) +
     int (printer_priority p)"

text \<open>
  \<open>_select_best_printer\<close>: \<open>False\<close> (here \<open>None\<close>) for no record, the record itself
  for one, else the first record after a stable sort by descending score
  (\<open>scored_printers.sort(key=lambda x: x[0], reverse=True)\<close>).
\<close>

definition select_best_printer ::
  "(nat \<times> printer) list \<Rightarrow> nat option \<Rightarrow> string option \<Rightarrow> nat option" where
  "select_best_printer found loc dep =
     (case found of
        [] \<Rightarrow> None
      | [r] \<Rightarrow> Some (fst r)
      | _ \<Rightarrow>
          (case sort_key (\<lambda>sp. - fst sp) (map (\<lambda>r. (printer_score loc dep (snd r), fst r)) found) of
             [] \<Rightarrow> None
           | best # _ \<Rightarrow> Some (snd best)))"

text \<open>The search domain \<open>get_default_printer\<close> builds from its arguments.\<close>

definition printer_domain ::
  "printer_kind option \<Rightarrow> nat option \<Rightarrow> string option \<Rightarrow> printer \<Rightarrow> bool" where
  "printer_domain ptype loc dep p =
     (active p \<and>
      (if ptype = None then True else Some (printer_type p) = ptype) \<and>
      (if given_id loc then location_id p = loc \<or> location_id p = None else True) \<and>
      (if truthy dep then department p = dep \<or> department p = None else True))"

definition get_default_printer ::
  "printer_kind option \<Rightarrow> nat option \<Rightarrow> string option \<Rightarrow> db \<Rightarrow> nat option" where
  "get_default_printer ptype loc dep d =
     (let found = search_printers (printer_domain ptype loc dep) d
      in if found = [] then None else select_best_printer found loc dep)"

section \<open>Creating records\<close>










section \<open>Batching label jobs (\<open>batch_label_jobs\<close>)\<close>



text \<open>The ids of \<open>mapped('printer_id')\<close>: each once, in order of first occurrence.\<close>

definition uniq :: "'a list \<Rightarrow> 'a list" where
  "uniq xs = rev (remdups (rev xs))"





text \<open>The loop that cancels the merged jobs.\<close>

definition cancel_merged :: "datetime \<Rightarrow> string \<Rightarrow> (nat \<times> job) list \<Rightarrow> db \<Rightarrow> db" where
  "cancel_merged now batch_name label_jobs d =
     fold (\<lambda>r. write_job (fst r)
             (\<lambda>j. j\<lparr>state := Cancelled,
                  error_message := Some (''Combined into batch job '' @ batch_name),
                  completed_date := Some now\<rparr>))
       label_jobs d"



section \<open>Names and the sequence\<close>




section \<open>Example data\<close>

definition ex_printer :: printer where
  "ex_printer = \<lparr>printer_name = ''Test Printer'', printer_type = Receipt, location_id = None,
     department = None, is_default = False, printer_priority = 10, active = True,
     supports_pdf = True, supports_html = True, supports_escpos = False, supports_zpl = False\<rparr>"

definition ex_job :: job where
  "ex_job = \<lparr>name = ''receipt-Test Printer-PJ1'', document_type = ''receipt'', printer_id = Some 0,
     user_id = 1, state = Draft, data = Some ''dGVzdA=='', data_format = Pdf, template_id = None,
     template_data = None, copies = 1, priority = 5, error_message = None, retry_count = 0,
     submitted_date = None, completed_date = None, parent_model = None, parent_id = None\<rparr>"

definition ex_config :: config where
  "ex_config = \<lparr>retry_enabled = True, max_retries = 3, retry_delay = 5\<rparr>"

definition ex_sequence :: ir_sequence where
  "ex_sequence = \<lparr>render = (\<lambda>n. ''PJ'' @ show_nat n), number_next = 2\<rparr>"

definition ex_db :: "printer \<Rightarrow> job \<Rightarrow> db" where
  "ex_db p j = \<lparr>printers = [p], jobs = [j], config = ex_config, sequence = Some ex_sequence,
     notified = []\<rparr>"



definition ex_default_printer :: printer where
  "ex_default_printer = ex_printer\<lparr>printer_name := ''Default Label Printer'', printer_type := Label,
     is_default := True, printer_priority := 1\<rparr>"

definition ex_busy_printer :: printer where
  "ex_busy_printer = ex_printer\<lparr>printer_name := ''High Priority Printer'', printer_type := Label,
     is_default := False, printer_priority := 20000\<rparr>"

definition ex_printers_db :: db where
  "ex_printers_db = \<lparr>printers = [ex_default_printer, ex_busy_printer], jobs = [], config = ex_config,
     sequence = None, notified = []\<rparr>"







section \<open>Reading and writing rows\<close>

lemma row_write_job_same:
  "row (jobs d) jid = Some j \<Longrightarrow> row (jobs (write_job jid f d)) jid = Some (f j)"
  by (auto simp: row_def write_job_def split: if_splits)

lemma row_write_job_other:
  "i \<noteq> jid \<Longrightarrow> row (jobs (write_job jid f d)) i = row (jobs d) i"
  by (auto simp: row_def write_job_def)

lemma write_job_frame [simp]:
  "printers (write_job jid f d) = printers d"
  "config (write_job jid f d) = config d"
  "sequence (write_job jid f d) = sequence d"
  "notified (write_job jid f d) = notified d"
  "length (jobs (write_job jid f d)) = length (jobs d)"
  by (simp_all add: write_job_def)

lemma notify_admin_failure_frame [simp]:
  "jobs (notify_admin_failure jid d) = jobs d"
  "printers (notify_admin_failure jid d) = printers d"
  "config (notify_admin_failure jid d) = config d"
  "sequence (notify_admin_failure jid d) = sequence d"
  "notified (notify_admin_failure jid d) = jid # notified d"
  by (simp_all add: notify_admin_failure_def)

lemma printer_of_write_job [simp]:
  "printer_of (write_job jid f d) j = printer_of d j"
  by (simp add: printer_of_def split: option.splits)

lemma jobs_ex_db [simp]: "jobs (ex_db p j) = [j]" "printers (ex_db p j) = [p]"
  "config (ex_db p j) = ex_config" "notified (ex_db p j) = []"
  by (simp_all add: ex_db_def)


section \<open>Substrings\<close>

lemma startswith_append: "startswith (kw @ s) kw"
  by (induction kw) auto

lemma contains_startswith: "startswith s kw \<Longrightarrow> contains s kw"
  by (cases s; cases kw) auto

lemma contains_prepend: "contains s kw \<Longrightarrow> contains (a @ s) kw"
  by (induction a) auto

lemma contains_infix: "contains (a @ kw @ b) kw"
  by (simp add: contains_prepend contains_startswith startswith_append)

lemma startswith_extend: "startswith s kw \<Longrightarrow> startswith (s @ b) kw"
  by (induction s kw rule: startswith.induct) auto

lemma contains_extend: "contains s kw \<Longrightarrow> contains (s @ b) kw"
proof (induction s)
  case Nil
  then show ?case by (simp add: contains_startswith startswith_append [of "[]", simplified])
next
  case (Cons c cs)
  then show ?case using startswith_extend [of "c # cs" kw b] by auto
qed

lemma ex_db_row: "row (jobs (ex_db p j)) 0 = Some j"
  by (simp add: ex_db_def row_def)

section \<open>What \<open>process_job\<close> and \<open>mark_failed\<close> leave behind\<close>

lemma process_job_accepts:
  assumes "row (jobs d) jid = Some j"
    and "state j = Queued \<or> state j = Failed"
    and "printer_active (printer_of d j)"
    and "format_supported (data_format j) (printer_of d j)"
  shows "process_job now jid d = (Returned True, write_job jid (\<lambda>r. r\<lparr>state := Printing\<rparr>) d)"
  using assms by (auto simp: process_job_def Let_def)

lemma process_job_rejects:
  assumes "row (jobs d) jid = Some j"
    and "state j = Queued \<or> state j = Failed"
    and "\<not> (printer_active (printer_of d j) \<and> format_supported (data_format j) (printer_of d j))"
  shows "fst (process_job now jid d) = Returned False \<and>
         (\<exists>j' m. row (jobs (snd (process_job now jid d))) jid = Some j' \<and> state j' = Failed \<and>
            error_message j' = Some m \<and> retry_count j' = retry_count j)"
  using assms
  by (auto simp: process_job_def process_failed_def Let_def row_write_job_same)

lemma process_job_state:
  assumes "row (jobs d) jid = Some j"
    and "state j = Queued \<or> state j = Failed"
  shows "\<exists>j'. row (jobs (snd (process_job now jid d))) jid = Some j' \<and>
           (state j' = Printing \<or> state j' = Failed) \<and> retry_count j' = retry_count j"
proof (cases "printer_active (printer_of d j) \<and> format_supported (data_format j) (printer_of d j)")
  case True
  then show ?thesis
    using process_job_accepts [OF assms, of now] assms(1) by (simp add: row_write_job_same)
next
  case False
  then show ?thesis
    using process_job_rejects [OF assms, of now] by auto
qed

lemma mark_failed_state:
  assumes "row (jobs d) jid = Some j"
  shows "\<exists>j'. row (jobs (snd (mark_failed now jid msg d))) jid = Some j' \<and>
           (state j' = Failed \<or> state j' = Printing)"
proof (cases "is_transient_error msg")
  case False
  then show ?thesis
    using assms
    by (simp add: mark_failed_def Let_def row_write_job_same)
next
  case True
  define d1 where "d1 = write_job jid (\<lambda>r. r\<lparr>state := Failed, error_message := Some msg\<rparr>) d"
  have r1: "row (jobs d1) jid = Some (j\<lparr>state := Failed, error_message := Some msg\<rparr>)"
    using assms by (simp add: d1_def row_write_job_same)
  have "\<exists>j'. row (jobs (snd (retry_job now jid d1))) jid = Some j' \<and>
           (state j' = Failed \<or> state j' = Printing)"
  proof -
    let ?w = "write_job jid (\<lambda>r. r\<lparr>state := Queued, retry_count := Suc (retry_count j),
                error_message := Some (msg @ newline @ ''Retry attempt '' @
                  show_nat (Suc (retry_count j)) @ '' at '' @ str_datetime now)\<rparr>) d1"
    have rw: "row (jobs ?w) jid = Some (j\<lparr>state := Queued, retry_count := Suc (retry_count j),
                error_message := Some (msg @ newline @ ''Retry attempt '' @
                  show_nat (Suc (retry_count j)) @ '' at '' @ str_datetime now)\<rparr>)"
      using r1 by (simp add: row_write_job_same)
    from process_job_state [OF rw, of now]
    have "\<exists>j'. row (jobs (snd (process_job now jid ?w))) jid = Some j' \<and>
           (state j' = Failed \<or> state j' = Printing)"
      by auto
    then show ?thesis
      using r1 True
      by (auto simp: retry_job_def Let_def row_write_job_same)
  qed
  then show ?thesis
    using assms True
    by (auto simp: mark_failed_def Let_def d1_def split: prod.splits outcome.splits)
qed

section \<open>Retrying\<close>

lemma is_transient_error_extend:
  "is_transient_error m \<Longrightarrow> is_transient_error (m @ s)"
  by (auto simp: is_transient_error_def lower_def list_ex_iff intro: contains_extend)

lemma process_job_config [simp]: "config (snd (process_job now jid d)) = config d"
  by (simp add: process_job_def process_failed_def Let_def split: option.splits)

lemma process_job_notified [simp]: "notified (snd (process_job now jid d)) = notified d"
  by (simp add: process_job_def process_failed_def Let_def split: option.splits)

lemma retry_job_config [simp]: "config (snd (retry_job now jid d)) = config d"
  by (simp add: retry_job_def Let_def split: option.splits)

lemma mark_failed_transient:
  assumes "row (jobs d) jid = Some j" and "is_transient_error msg"
  shows "snd (mark_failed now jid msg d) = fail_then_retry now jid msg d"
  using assms by (simp add: mark_failed_def fail_then_retry_def Let_def split: prod.splits outcome.splits)




lemma fail_then_retry_config [simp]: "config (fail_then_retry now jid msg d) = config d"
  by (simp add: fail_then_retry_def)





section \<open>The selected printer\<close>

lemma set_insert_ordered [simp]: "set (insert_ordered x ys) = insert x (set ys)"
  by (induction ys) auto

lemma set_in_order [simp]: "set (in_order rs) = set rs"
  by (induction rs) (auto simp: in_order_def)

lemma set_search_printers:
  "set (search_printers domain d) = {(i, p). row (printers d) i = Some p \<and> domain p}"
  by (auto simp: search_printers_def row_def in_set_enumerate_eq split: if_splits)

lemma select_best_printer_highest:
  assumes "found \<noteq> []"
  shows "\<exists>r \<in> set found. select_best_printer found loc dep = Some (fst r) \<and>
           (\<forall>q \<in> set found. printer_score loc dep (snd q) \<le> printer_score loc dep (snd r))"
proof (cases found)
  case Nil
  with assms show ?thesis by simp
next
  case (Cons r rest)
  note found = Cons
  show ?thesis
  proof (cases rest)
    case Nil
    with found show ?thesis by (simp add: select_best_printer_def)
  next
    case (Cons r2 rest2)
    define scored where "scored = map (\<lambda>r. (printer_score loc dep (snd r), fst r)) found"
    define ranked where "ranked = sort_key (\<lambda>sp. - fst sp) scored"
    have st: "set ranked = set scored"
      by (simp add: ranked_def)
    have "scored \<noteq> []"
      using assms by (simp add: scored_def)
    then have "ranked \<noteq> []"
      using st by (metis set_empty)
    then obtain best others where rk: "ranked = best # others"
      by (cases ranked) auto
    have "sorted (map (\<lambda>sp. - fst sp) ranked)"
      by (simp add: ranked_def)
    then have top: "\<And>y. y \<in> set ranked \<Longrightarrow> fst y \<le> fst best"
      by (auto simp: rk)
    have "best \<in> set scored"
      using st rk by auto
    then obtain r0 where r0: "r0 \<in> set found" "best = (printer_score loc dep (snd r0), fst r0)"
      unfolding scored_def by auto
    have sel: "select_best_printer found loc dep = Some (snd best)"
      unfolding select_best_printer_def found Cons
      using rk by (simp add: ranked_def scored_def found Cons)
    have "\<forall>q \<in> set found. printer_score loc dep (snd q) \<le> printer_score loc dep (snd r0)"
    proof
      fix q assume "q \<in> set found"
      then have "(printer_score loc dep (snd q), fst q) \<in> set ranked"
        unfolding st scored_def by simp
      from top [OF this] show "printer_score loc dep (snd q) \<le> printer_score loc dep (snd r0)"
        by (simp add: r0(2))
    qed
    with r0 sel show ?thesis
      by (intro bexI [of _ r0]) simp_all
  qed
qed

lemma get_default_printer_highest:
  assumes "get_default_printer ptype loc dep d = Some i"
  shows "\<exists>p. row (printers d) i = Some p \<and> printer_domain ptype loc dep p \<and>
           (\<forall>k q. row (printers d) k = Some q \<and> printer_domain ptype loc dep q \<longrightarrow>
              printer_score loc dep q \<le> printer_score loc dep p)"
proof -
  define found where "found = search_printers (printer_domain ptype loc dep) d"
  from assms have ne: "found \<noteq> []" and sel: "select_best_printer found loc dep = Some i"
    by (auto simp: get_default_printer_def found_def Let_def split: if_splits)
  from select_best_printer_highest [OF ne, of loc dep] sel
  obtain r where r: "r \<in> set found" "fst r = i"
    and best: "\<And>q. q \<in> set found \<Longrightarrow> printer_score loc dep (snd q) \<le> printer_score loc dep (snd r)"
    by auto
  have mem: "((k, q) \<in> set found) = (row (printers d) k = Some q \<and> printer_domain ptype loc dep q)" for k q
    by (simp add: found_def set_search_printers)
  obtain p where rp: "r = (i, p)"
    using r(2) by (cases r) simp
  have "row (printers d) i = Some p" "printer_domain ptype loc dep p"
    using r(1) mem [of i p] by (simp_all add: rp)
  moreover have "printer_score loc dep q \<le> printer_score loc dep p"
    if "row (printers d) k = Some q \<and> printer_domain ptype loc dep q" for k q
  proof -
    from that have "(k, q) \<in> set found" by (simp add: mem)
    from best [OF this] show ?thesis by (simp add: rp)
  qed
  ultimately show ?thesis by blast
qed

lemma default_outscores_modest_priority:
  assumes "is_default p" and "\<not> is_default q"
    and "printer_priority q < printer_priority p + 8500"
  shows "printer_score loc dep q < printer_score loc dep p"
  using assms by (simp add: printer_score_def)

lemma ex_printers_found: "search_printers (printer_domain (Some Label) None None) ex_printers_db = [(1, ex_busy_printer), (0, ex_default_printer)]"
  by (simp add: printer_domain_def search_printers_def in_order_def printer_before_def
      given_id_def truthy_def
      ex_printers_db_def ex_default_printer_def ex_busy_printer_def ex_printer_def enumerate_eq_zip upt_rec)

lemma ex_default_printer_score: "printer_score None None ex_default_printer = 10151"
  by (simp add: printer_score_def given_id_def truthy_def ex_default_printer_def ex_printer_def)

lemma ex_busy_printer_score: "printer_score None None ex_busy_printer = 20150"
  by (simp add: printer_score_def given_id_def truthy_def ex_busy_printer_def ex_printer_def)

section \<open>What \<open>create\<close> returns\<close>








section \<open>Merging label jobs\<close>


lemma set_uniq [simp]: "set (uniq xs) = set xs"
  by (simp add: uniq_def)

lemma distinct_uniq [simp]: "distinct (uniq xs)"
  by (simp add: uniq_def)





lemma cancel_merged_frame [simp]:
  "length (jobs (cancel_merged now nm rs d)) = length (jobs d)"
  "printers (cancel_merged now nm rs d) = printers d"
  "config (cancel_merged now nm rs d) = config d"
  "notified (cancel_merged now nm rs d) = notified d"
  "sequence (cancel_merged now nm rs d) = sequence d"
  by (induction rs arbitrary: d) (simp_all add: cancel_merged_def)






section \<open>Names stay distinct\<close>













section \<open>Claims\<close>





text \<open>
  C2, as the claim states it, fails: on a queued job whose printer is inactive
  \<open>process_job\<close> returns \<open>False\<close>; nothing is raised to the caller.
\<close>

theorem process_job_inactive_counterexample:
  "state (ex_job\<lparr>state := Queued\<rparr>) = Queued \<and> \<not> active (ex_printer\<lparr>active := False\<rparr>) \<and>
   fst (process_job 9 0 (ex_db (ex_printer\<lparr>active := False\<rparr>) (ex_job\<lparr>state := Queued\<rparr>))) =
     Returned False"
  by code_simp

text \<open>
  C2, amended. \<open>process_job\<close> on a queued job whose printer is inactive, or lacks the
  capability for the job's \<open>data_format\<close>, leaves the job failed with an
  \<open>error_message\<close>; for an inactive printer the call returns \<open>False\<close>.
\<close>

theorem process_job_invalid_printer:
  assumes "row (jobs d) jid = Some j"
    and "state j = Queued"
    and "\<not> printer_active (printer_of d j) \<or> \<not> format_supported (data_format j) (printer_of d j)"
  shows "(\<exists>j' m. row (jobs (snd (process_job now jid d))) jid = Some j' \<and> state j' = Failed \<and>
            error_message j' = Some m) \<and>
         (\<not> printer_active (printer_of d j) \<longrightarrow> fst (process_job now jid d) = Returned False)"
  using process_job_rejects [OF assms(1), of now] assms(2,3) by auto

theorem process_job_invalid_printer_witness:
  "row (jobs (ex_db ex_printer (ex_job\<lparr>state := Queued, data_format := Zpl\<rparr>))) 0 =
     Some (ex_job\<lparr>state := Queued, data_format := Zpl\<rparr>) \<and>
   \<not> format_supported Zpl (Some ex_printer) \<and>
   (\<exists>j' m. row (jobs (snd (process_job 9 0 (ex_db ex_printer (ex_job\<lparr>state := Queued, data_format := Zpl\<rparr>))))) 0 = Some j' \<and>
      state j' = Failed \<and> error_message j' = Some m)"
proof -
  let ?j = "ex_job\<lparr>state := Queued, data_format := Zpl\<rparr>"
  have p: "printer_of (ex_db ex_printer ?j) ?j = Some ex_printer"
    by (simp add: printer_of_def ex_job_def row_def)
  have f: "\<not> format_supported Zpl (Some ex_printer)"
    by (simp add: format_supported_def ex_printer_def)
  show ?thesis
    using process_job_invalid_printer [of "ex_db ex_printer ?j" 0 ?j 9] p f ex_db_row [of ex_printer ?j]
    by simp
qed

text \<open>
  C3, as the claim states it, fails for a job in the printing state: \<open>cancel_job\<close>
  cancels it and returns \<open>True\<close>.
\<close>

theorem cancel_job_printing_counterexample:
  "state (ex_job\<lparr>state := Printing\<rparr>) = Printing \<and>
   fst (cancel_job 9 0 (ex_db ex_printer (ex_job\<lparr>state := Printing\<rparr>))) = Returned True \<and>
   map state (jobs (snd (cancel_job 9 0 (ex_db ex_printer (ex_job\<lparr>state := Printing\<rparr>))))) = [Cancelled]"
  by (simp add: cancel_job_def row_def write_job_def)

text \<open>
  C3, amended. \<open>cancel_job\<close> is a no-op returning \<open>False\<close> on a completed or
  cancelled job; from every other state (draft, queued, printing, failed) it returns
  \<open>True\<close> and moves the job to cancelled with \<open>completed_date\<close> set.
\<close>

theorem cancel_job_spec:
  assumes "row (jobs d) jid = Some j"
  shows "(state j = Completed \<or> state j = Cancelled \<longrightarrow> cancel_job now jid d = (Returned False, d)) \<and>
         (state j \<noteq> Completed \<and> state j \<noteq> Cancelled \<longrightarrow>
            fst (cancel_job now jid d) = Returned True \<and>
            row (jobs (snd (cancel_job now jid d))) jid =
              Some (j\<lparr>state := Cancelled, completed_date := Some now\<rparr>))"
  using assms by (auto simp: cancel_job_def row_write_job_same)

theorem cancel_job_spec_witness:
  "row (jobs (ex_db ex_printer (ex_job\<lparr>state := Failed\<rparr>))) 0 = Some (ex_job\<lparr>state := Failed\<rparr>) \<and>
   fst (cancel_job 9 0 (ex_db ex_printer (ex_job\<lparr>state := Failed\<rparr>))) = Returned True \<and>
   row (jobs (snd (cancel_job 9 0 (ex_db ex_printer (ex_job\<lparr>state := Failed\<rparr>))))) 0 =
     Some (ex_job\<lparr>state := Cancelled, completed_date := Some 9\<rparr>)"
  using cancel_job_spec [OF ex_db_row, of "ex_job\<lparr>state := Failed\<rparr>" 9 ex_printer] ex_db_row
  by simp




text \<open>
  C5. The score is the sum the claim gives and the selected printer has the highest score
  (\<open>get_default_printer_highest\<close>); a default printer outscores a non-default one
  whose priority exceeds its own by less than 8500
  (\<open>default_outscores_modest_priority\<close>). The second half of the claim fails on the
  code: of two active label printers, the non-default one with priority 20000 is selected
  over the default one with priority 1.
\<close>

theorem get_default_printer_priority_beats_default:
  "is_default ex_default_printer \<and> \<not> is_default ex_busy_printer \<and>
   active ex_default_printer \<and> active ex_busy_printer \<and>
   printer_type ex_default_printer = Label \<and> printer_type ex_busy_printer = Label \<and>
   row (printers ex_printers_db) 0 = Some ex_default_printer \<and>
   row (printers ex_printers_db) 1 = Some ex_busy_printer \<and>
   printer_score None None ex_default_printer = 10151 \<and>
   printer_score None None ex_busy_printer = 20150 \<and>
   get_default_printer (Some Label) None None ex_printers_db = Some 1"
proof -
  have "get_default_printer (Some Label) None None ex_printers_db = Some 1"
    by (simp add: get_default_printer_def ex_printers_found select_best_printer_def ex_default_printer_score ex_busy_printer_score)
  moreover have "is_default ex_default_printer \<and> \<not> is_default ex_busy_printer \<and>
   active ex_default_printer \<and> active ex_busy_printer \<and>
   printer_type ex_default_printer = Label \<and> printer_type ex_busy_printer = Label"
    by (simp add: ex_default_printer_def ex_busy_printer_def ex_printer_def)
  moreover have "row (printers ex_printers_db) 0 = Some ex_default_printer \<and>
   row (printers ex_printers_db) 1 = Some ex_busy_printer"
    by (simp add: row_def ex_printers_db_def)
  ultimately show ?thesis
    using ex_default_printer_score ex_busy_printer_score by simp
qed



text \<open>
  C7. \<open>submit_job\<close> raises a ValidationError when the job has neither data nor a
  template, or has no printer assigned, and then writes nothing. Otherwise it returns the
  job's id and leaves the job queued with \<open>submitted_date\<close> set; when the printer is
  inactive the job's \<open>error_message\<close> contains "offline".
\<close>

theorem submit_job_spec:
  assumes "row (jobs d) jid = Some j"
  shows "((\<not> truthy (data j) \<and> template_id j = None) \<or> printer_id j = None \<longrightarrow>
            (\<exists>msg. submit_job now jid d = (Raised (ValidationError msg), d))) \<and>
         ((truthy (data j) \<or> template_id j \<noteq> None) \<and> printer_id j \<noteq> None \<longrightarrow>
            fst (submit_job now jid d) = Returned jid \<and>
            (\<exists>j'. row (jobs (snd (submit_job now jid d))) jid = Some j' \<and>
                  state j' = Queued \<and> submitted_date j' = Some now \<and>
                  (\<not> printer_active (printer_of d j) \<longrightarrow>
                     (\<exists>m. error_message j' = Some m \<and> contains m ''offline''))))"
proof -
  have off: "contains (''Printer '' @ x @ '' is offline. Job queued for later processing.'') ''offline''" for x
    using contains_infix [of "''Printer '' @ x @ '' is ''" "''offline''" "''. Job queued for later processing.''"]
    by simp
  show ?thesis
    using assms off by (auto simp: submit_job_def row_write_job_same)
qed

theorem submit_job_spec_witness:
  "row (jobs (ex_db (ex_printer\<lparr>active := False\<rparr>) ex_job)) 0 = Some ex_job \<and>
   truthy (data ex_job) \<and> printer_id ex_job \<noteq> None \<and>
   \<not> printer_active (printer_of (ex_db (ex_printer\<lparr>active := False\<rparr>) ex_job) ex_job) \<and>
   fst (submit_job 7 0 (ex_db (ex_printer\<lparr>active := False\<rparr>) ex_job)) = Returned 0 \<and>
   (\<exists>j'. row (jobs (snd (submit_job 7 0 (ex_db (ex_printer\<lparr>active := False\<rparr>) ex_job)))) 0 = Some j' \<and>
         state j' = Queued \<and> submitted_date j' = Some 7 \<and>
         (\<exists>m. error_message j' = Some m \<and> contains m ''offline''))"
proof -
  have p: "truthy (data ex_job) \<and> printer_id ex_job \<noteq> None"
    by (simp add: ex_job_def truthy_def)
  have q: "\<not> printer_active (printer_of (ex_db (ex_printer\<lparr>active := False\<rparr>) ex_job) ex_job)"
    by (simp add: printer_active_def printer_of_def ex_db_def ex_job_def row_def)
  show ?thesis
    using submit_job_spec [OF ex_db_row, of ex_job 7 "ex_printer\<lparr>active := False\<rparr>"] p q ex_db_row
    by simp
qed



text \<open>
  C9, as the claim states it, fails: \<open>mark_completed\<close> moves a cancelled job to
  completed.
\<close>

theorem mark_completed_cancelled_counterexample:
  "state (ex_job\<lparr>state := Cancelled\<rparr>) = Cancelled \<and>
   map state (jobs (snd (mark_completed 9 0 (ex_db ex_printer (ex_job\<lparr>state := Cancelled\<rparr>))))) = [Completed]"
  by (simp add: mark_completed_def row_def write_job_def)

text \<open>
  C9, amended. On a completed or cancelled job \<open>process_job\<close>, \<open>retry_job\<close> and
  \<open>cancel_job\<close> return \<open>False\<close> and write nothing. \<open>submit_job\<close>,
  \<open>mark_completed\<close> and \<open>mark_failed\<close> carry no state guard: they move such a job
  to queued, to completed, and to failed (or to printing, when the automatic retry
  succeeds).
\<close>

theorem terminal_states_guarded:
  assumes "row (jobs d) jid = Some j"
    and "state j = Completed \<or> state j = Cancelled"
  shows "process_job now jid d = (Returned False, d) \<and>
         retry_job now jid d = (Returned False, d) \<and>
         cancel_job now jid d = (Returned False, d) \<and>
         (\<exists>j'. row (jobs (snd (mark_completed now jid d))) jid = Some j' \<and> state j' = Completed) \<and>
         (\<exists>j'. row (jobs (snd (mark_failed now jid msg d))) jid = Some j' \<and>
               (state j' = Failed \<or> state j' = Printing)) \<and>
         ((truthy (data j) \<or> template_id j \<noteq> None) \<and> printer_id j \<noteq> None \<longrightarrow>
            (\<exists>j'. row (jobs (snd (submit_job now jid d))) jid = Some j' \<and> state j' = Queued))"
proof -
  have a: "process_job now jid d = (Returned False, d)"
    using assms by (auto simp: process_job_def)
  have b: "retry_job now jid d = (Returned False, d)"
    using assms by (auto simp: retry_job_def)
  have c: "cancel_job now jid d = (Returned False, d)"
    using assms by (auto simp: cancel_job_def)
  have e: "\<exists>j'. row (jobs (snd (mark_completed now jid d))) jid = Some j' \<and> state j' = Completed"
    using assms by (simp add: mark_completed_def row_write_job_same)
  have g: "(truthy (data j) \<or> template_id j \<noteq> None) \<and> printer_id j \<noteq> None \<longrightarrow>
            (\<exists>j'. row (jobs (snd (submit_job now jid d))) jid = Some j' \<and> state j' = Queued)"
    using assms(1) by (auto simp: submit_job_def row_write_job_same)
  show ?thesis
    using a b c e g mark_failed_state [OF assms(1)] by blast
qed

theorem terminal_states_guarded_witness:
  "row (jobs (ex_db ex_printer (ex_job\<lparr>state := Completed\<rparr>))) 0 = Some (ex_job\<lparr>state := Completed\<rparr>) \<and>
   state (ex_job\<lparr>state := Completed\<rparr>) = Completed \<and>
   process_job 9 0 (ex_db ex_printer (ex_job\<lparr>state := Completed\<rparr>)) =
     (Returned False, ex_db ex_printer (ex_job\<lparr>state := Completed\<rparr>)) \<and>
   retry_job 9 0 (ex_db ex_printer (ex_job\<lparr>state := Completed\<rparr>)) =
     (Returned False, ex_db ex_printer (ex_job\<lparr>state := Completed\<rparr>)) \<and>
   cancel_job 9 0 (ex_db ex_printer (ex_job\<lparr>state := Completed\<rparr>)) =
     (Returned False, ex_db ex_printer (ex_job\<lparr>state := Completed\<rparr>))"
  using terminal_states_guarded [OF ex_db_row, of "ex_job\<lparr>state := Completed\<rparr>" 9 ex_printer "''x''"] ex_db_row
  by simp

text \<open>
  C10. When the job is not in the failed state, or retrying is disabled, \<open>retry_job\<close>
  returns \<open>False\<close> and the database is unchanged.
\<close>

theorem retry_job_noop:
  assumes "row (jobs d) jid = Some j"
    and "state j \<noteq> Failed \<or> \<not> retry_enabled (config d)"
  shows "retry_job now jid d = (Returned False, d)"
  using assms by (auto simp: retry_job_def)

theorem retry_job_noop_witness:
  "row (jobs (ex_db ex_printer ex_job)) 0 = Some ex_job \<and> state ex_job \<noteq> Failed \<and>
   retry_job 7 0 (ex_db ex_printer ex_job) = (Returned False, ex_db ex_printer ex_job)"
proof -
  have s: "state ex_job \<noteq> Failed"
    by (simp add: ex_job_def)
  from retry_job_noop [of "ex_db ex_printer ex_job" 0 ex_job 7] s show ?thesis
    using ex_db_row by simp
qed

end
